theory Spec2Isabelle
  imports Main
begin

section \<open>Python strings\<close>

text \<open>
  A Python \<open>str\<close> is a sequence of Unicode code points, and \<open>len\<close> counts code points.
  A string is therefore a list of code points, not a list of bytes; a code point is the
  integer \<open>ord(c)\<close>. \<open>str_of\<close> reads an ASCII literal as such a string.
\<close>

type_synonym pystr = "int list"

definition str_of :: "string \<Rightarrow> pystr" where
  "str_of s = map of_char s"

text \<open>
  \<open>str.lower()\<close>. The letters A-Z go to a-z. Exactly two code points outside ASCII have a
  lower-case form that contains an ASCII letter: U+0130 (capital I with dot above) becomes
  \<open>i\<close> followed by U+0307, and U+212A (Kelvin sign) becomes \<open>k\<close>. Every other cased code
  point outside ASCII is mapped by Python to code points outside ASCII again; the model
  leaves those in place, which no function below can tell apart: the sanitizer deletes
  them either way, and the parser only compares the result with \<open>user\<close> and with the two
  uncased code points U+7528 U+6237.
\<close>

definition lower_cp :: "int \<Rightarrow> pystr" where
  "lower_cp c =
     (if 65 \<le> c \<and> c \<le> 90 then [c + 32]
      else if c = 304 then [105, 775]
      else if c = 8490 then [107]
      else [c])"

definition py_lower :: "pystr \<Rightarrow> pystr" where
  "py_lower s = concat (map lower_cp s)"

text \<open>\<open>s.replace(" ", "_")\<close>: only U+0020 is replaced.\<close>

definition replace_space :: "pystr \<Rightarrow> pystr" where
  "replace_space s = map (\<lambda>c. if c = 32 then 95 else c) s"

text \<open>The character class \<open>[a-z0-9_-]\<close> of the sanitizer's regular expression.\<close>

definition ident_char :: "int \<Rightarrow> bool" where
  "ident_char c \<longleftrightarrow> (97 \<le> c \<and> c \<le> 122) \<or> (48 \<le> c \<and> c \<le> 57) \<or> c = 95 \<or> c = 45"

text \<open>
  \<open>str.isdigit()\<close> on one character. The sanitizer asks it only of a character that
  passed the filter \<open>[a-z0-9_-]\<close>, where it is true exactly of 0-9.
\<close>

definition isdigit :: "int \<Rightarrow> bool" where
  "isdigit c \<longleftrightarrow> 48 \<le> c \<and> c \<le> 57"

section \<open>The tool-name sanitizer (agent\_single\_create.py)\<close>

text \<open>
  \<^verbatim>\<open>
  def sanitize_tool_name(name):
      sanitized = name.lower().replace(" ", "_")
      sanitized = re.sub(r'[^a-z0-9_-]', '', sanitized)
      if not sanitized or sanitized[0].isdigit():
          sanitized = f"skill_{sanitized}"
      if not sanitized:
          sanitized = "skill_tool"
      return sanitized
  \<close>
\<close>

definition sanitize_tool_name :: "pystr \<Rightarrow> pystr" where
  "sanitize_tool_name name =
     (let s1 = replace_space (py_lower name);
          s2 = filter ident_char s1;
          s3 = (if (case s2 of [] \<Rightarrow> True | c # _ \<Rightarrow> isdigit c)
                then str_of ''skill_'' @ s2 else s2);
          s4 = (if s3 = [] then str_of ''skill_tool'' else s3)
      in s4)"

text \<open>The pattern \<open>^[a-z0-9_-]+$\<close>: non-empty, every character in the class.\<close>

definition matches_ident :: "pystr \<Rightarrow> bool" where
  "matches_ident s \<longleftrightarrow> s \<noteq> [] \<and> list_all ident_char s"

section \<open>Python values and dictionaries\<close>

text \<open>
  The values a tool call carries (\<open>Dict[str, Any]\<close>): None, booleans, integers, strings,
  lists and dictionaries with string keys; floating-point numbers, which no field of the
  schema accepts, are left out. A dictionary is an association list in insertion order;
  a well-formed one has each key once, and \<open>map_of\<close> is the lookup.
\<close>

datatype pyval =
    PNone
  | PBool bool
  | PInt int
  | PStr pystr
  | PList "pyval list"
  | PDict "(pystr \<times> pyval) list"

type_synonym pydict = "(pystr \<times> pyval) list"

text \<open>\<open>d[k] = v\<close>: an existing key keeps its position, a new key goes to the end.\<close>

fun dict_set :: "pydict \<Rightarrow> pystr \<Rightarrow> pyval \<Rightarrow> pydict" where
  "dict_set [] k v = [(k, v)]"
| "dict_set ((k', v') # d) k v =
     (if k' = k then (k, v) # d else (k', v') # dict_set d k v)"

text \<open>\<open>{**a, **b}\<close>: the items of \<open>a\<close>, then each item of \<open>b\<close> stored in turn.\<close>

definition dict_merge :: "pydict \<Rightarrow> pydict \<Rightarrow> pydict" where
  "dict_merge a b = foldl (\<lambda>d (k, v). dict_set d k v) a b"

text \<open>\<open>sep.join(xs)\<close> and \<open>str(n)\<close> for a non-negative integer.\<close>

fun join :: "pystr \<Rightarrow> pystr list \<Rightarrow> pystr" where
  "join sep [] = []"
| "join sep [x] = x"
| "join sep (x # y # ys) = x @ sep @ join sep (y # ys)"

fun str_nat :: "nat \<Rightarrow> pystr" where
  "str_nat n = (if n < 10 then [48 + int n] else str_nat (n div 10) @ [48 + int (n mod 10)])"

section \<open>The schema (models.py)\<close>

text \<open>
  \<^verbatim>\<open>
  class Tool(BaseModel):
      name: str = Field(...)
      config: Dict[str, Any] = Field(default_factory=dict)
  class Skill(BaseModel):
      name: str = Field(..., min_length=1, max_length=50)
      when_to_use: str = Field(..., min_length=10, max_length=500)
      prompt: str = Field(..., min_length=10)
      tools: List[Tool] = Field(default_factory=list)
  class AgentConfig(BaseModel):
      name: str = Field(..., min_length=1, max_length=100)
      description: str = Field(..., min_length=1, max_length=500)
      system_prompt: str = Field(..., min_length=10)
      skills: List[Skill] = Field(..., min_items=1, max_items=1)
  \<close>
  The three classes have a field \<open>name\<close> each; the records call them \<open>tool_name\<close>,
  \<open>skill_name\<close> and \<open>agent_name\<close>.
\<close>

record Tool =
  tool_name :: pystr
  config :: pydict

record Skill =
  skill_name :: pystr
  when_to_use :: pystr
  prompt :: pystr
  tools :: "Tool list"

record AgentConfig =
  agent_name :: pystr
  description :: pystr
  system_prompt :: pystr
  skills :: "Skill list"

text \<open>
  Constructing a model from keyword arguments validates every declared field, in the
  order of declaration, and raises one \<open>ValidationError\<close> that lists the errors of all
  fields. An error has a location (the path of keys and list indices from the top) and
  a type. Keys that are no field of the model are ignored.
\<close>

datatype loc_item = Key pystr | Idx nat

datatype error_type =
    E_missing
  | E_string_type
  | E_string_too_short
  | E_string_too_long
  | E_list_type
  | E_too_short
  | E_too_long
  | E_model_type
  | E_dict_type

type_synonym verror = "loc_item list \<times> error_type"

definition at_loc :: "loc_item \<Rightarrow> verror list + 'a \<Rightarrow> verror list + 'a" where
  "at_loc l r = (case r of Inl es \<Rightarrow> Inl (map (\<lambda>(p, e). (l # p, e)) es) | Inr x \<Rightarrow> Inr x)"

definition errors_of :: "verror list + 'a \<Rightarrow> verror list" where
  "errors_of r = (case r of Inl es \<Rightarrow> es | Inr _ \<Rightarrow> [])"

text \<open>A field declared with \<open>Field(...)\<close> is required; one with a default factory is not.\<close>

definition required :: "pydict \<Rightarrow> pystr \<Rightarrow> (pyval \<Rightarrow> verror list + 'a) \<Rightarrow> verror list + 'a" where
  "required d k f =
     (case map_of d k of
        None \<Rightarrow> Inl [([Key k], E_missing)]
      | Some v \<Rightarrow> at_loc (Key k) (f v))"

definition with_default ::
  "pydict \<Rightarrow> pystr \<Rightarrow> 'a \<Rightarrow> (pyval \<Rightarrow> verror list + 'a) \<Rightarrow> verror list + 'a" where
  "with_default d k dflt f =
     (case map_of d k of
        None \<Rightarrow> Inr dflt
      | Some v \<Rightarrow> at_loc (Key k) (f v))"

text \<open>\<open>str\<close> with \<open>min_length\<close> and \<open>max_length\<close>: only a string is accepted.\<close>

definition str_validator :: "nat \<Rightarrow> nat option \<Rightarrow> pyval \<Rightarrow> verror list + pystr" where
  "str_validator lo hi v =
     (case v of
        PStr s \<Rightarrow>
          if length s < lo then Inl [([], E_string_too_short)]
          else if (case hi of Some h \<Rightarrow> h < length s | None \<Rightarrow> False)
          then Inl [([], E_string_too_long)]
          else Inr s
      | _ \<Rightarrow> Inl [([], E_string_type)])"

definition dict_validator :: "pyval \<Rightarrow> verror list + pydict" where
  "dict_validator v = (case v of PDict d \<Rightarrow> Inr d | _ \<Rightarrow> Inl [([], E_dict_type)])"

text \<open>
  \<open>List[T]\<close>: the items are validated in order and their errors collected under their
  index. A list longer than \<open>max_items\<close> is reported as too long, alone; a list shorter
  than \<open>min_items\<close> whose items are all valid is reported as too short.
\<close>

fun validate_items ::
  "(pyval \<Rightarrow> verror list + 'a) \<Rightarrow> nat \<Rightarrow> pyval list \<Rightarrow> verror list \<times> 'a list" where
  "validate_items f i [] = ([], [])"
| "validate_items f i (x # xs) =
     (case validate_items f (Suc i) xs of (es, ys) \<Rightarrow>
        (case at_loc (Idx i) (f x) of
           Inl e \<Rightarrow> (e @ es, ys)
         | Inr y \<Rightarrow> (es, y # ys)))"

definition list_validator ::
  "(pyval \<Rightarrow> verror list + 'a) \<Rightarrow> nat \<Rightarrow> nat option \<Rightarrow> pyval \<Rightarrow> verror list + 'a list" where
  "list_validator f lo hi v =
     (case v of
        PList xs \<Rightarrow>
          if (case hi of Some h \<Rightarrow> h < length xs | None \<Rightarrow> False)
          then Inl [([], E_too_long)]
          else (case validate_items f 0 xs of (es, ys) \<Rightarrow>
                  if es \<noteq> [] then Inl es
                  else if length ys < lo then Inl [([], E_too_short)]
                  else Inr ys)
      | _ \<Rightarrow> Inl [([], E_list_type)])"

definition validate_Tool :: "pyval \<Rightarrow> verror list + Tool" where
  "validate_Tool v =
     (case v of
        PDict d \<Rightarrow>
          (let n = required d (str_of ''name'') (str_validator 0 None);
               c = with_default d (str_of ''config'') [] dict_validator
           in case (n, c) of
                (Inr n', Inr c') \<Rightarrow> Inr \<lparr>tool_name = n', config = c'\<rparr>
              | _ \<Rightarrow> Inl (errors_of n @ errors_of c))
      | _ \<Rightarrow> Inl [([], E_model_type)])"

definition validate_Skill :: "pyval \<Rightarrow> verror list + Skill" where
  "validate_Skill v =
     (case v of
        PDict d \<Rightarrow>
          (let n = required d (str_of ''name'') (str_validator 1 (Some 50));
               w = required d (str_of ''when_to_use'') (str_validator 10 (Some 500));
               p = required d (str_of ''prompt'') (str_validator 10 None);
               t = with_default d (str_of ''tools'') [] (list_validator validate_Tool 0 None)
           in case (n, w, p, t) of
                (Inr n', Inr w', Inr p', Inr t') \<Rightarrow>
                  Inr \<lparr>skill_name = n', when_to_use = w', prompt = p', tools = t'\<rparr>
              | _ \<Rightarrow> Inl (errors_of n @ errors_of w @ errors_of p @ errors_of t))
      | _ \<Rightarrow> Inl [([], E_model_type)])"

text \<open>\<open>AgentConfig(**config)\<close>: the validated model, or the errors of the \<open>ValidationError\<close>.\<close>

definition validate_AgentConfig :: "pydict \<Rightarrow> verror list + AgentConfig" where
  "validate_AgentConfig d =
     (let n = required d (str_of ''name'') (str_validator 1 (Some 100));
          ds = required d (str_of ''description'') (str_validator 1 (Some 500));
          sp = required d (str_of ''system_prompt'') (str_validator 10 None);
          sk = required d (str_of ''skills'') (list_validator validate_Skill 1 (Some 1))
      in case (n, ds, sp, sk) of
           (Inr n', Inr ds', Inr sp', Inr sk') \<Rightarrow>
             Inr \<lparr>agent_name = n', description = ds', system_prompt = sp', skills = sk'\<rparr>
         | _ \<Rightarrow> Inl (errors_of n @ errors_of ds @ errors_of sp @ errors_of sk))"

text \<open>\<open>model_dump()\<close>: the model as nested dictionaries, fields in declaration order.\<close>

definition dump_Tool :: "Tool \<Rightarrow> pyval" where
  "dump_Tool t = PDict [(str_of ''name'', PStr (tool_name t)), (str_of ''config'', PDict (config t))]"

definition dump_Skill :: "Skill \<Rightarrow> pyval" where
  "dump_Skill s =
     PDict [(str_of ''name'', PStr (skill_name s)),
            (str_of ''when_to_use'', PStr (when_to_use s)),
            (str_of ''prompt'', PStr (prompt s)),
            (str_of ''tools'', PList (map dump_Tool (tools s)))]"

definition model_dump :: "AgentConfig \<Rightarrow> pydict" where
  "model_dump c =
     [(str_of ''name'', PStr (agent_name c)),
      (str_of ''description'', PStr (description c)),
      (str_of ''system_prompt'', PStr (system_prompt c)),
      (str_of ''skills'', PList (map dump_Skill (skills c)))]"

section \<open>The configuration state and its reducers (middleware/agent\_config.py)\<close>

text \<open>
  The stored configuration is \<open>AgentConfig | Dict[str, Any] | None\<close>: a validated
  model, a raw (partial) dictionary, or nothing (\<open>None\<close> of the option type).
\<close>

datatype config_value = Validated AgentConfig | Partial pydict

text \<open>
  \<^verbatim>\<open>
  def _agent_config_reducer(old, new):
      if new is None:
          return old
      if isinstance(new, AgentConfig):
          return new
      current_data = {}
      if old is not None:
          if isinstance(old, AgentConfig):
              current_data = old.model_dump()
          elif isinstance(old, dict):
              current_data = old
      merged_data = {**current_data, **new}
      try:
          return AgentConfig(**merged_data)
      except ValidationError:
          return merged_data
  \<close>
\<close>

definition current_data :: "config_value option \<Rightarrow> pydict" where
  "current_data old =
     (case old of
        None \<Rightarrow> []
      | Some (Validated c) \<Rightarrow> model_dump c
      | Some (Partial d) \<Rightarrow> d)"

definition agent_config_reducer ::
  "config_value option \<Rightarrow> config_value option \<Rightarrow> config_value option" where
  "agent_config_reducer old new =
     (case new of
        None \<Rightarrow> old
      | Some (Validated c) \<Rightarrow> Some (Validated c)
      | Some (Partial upd) \<Rightarrow>
          (let merged_data = dict_merge (current_data old) upd
           in case validate_AgentConfig merged_data of
                Inr c \<Rightarrow> Some (Validated c)
              | Inl _ \<Rightarrow> Some (Partial merged_data)))"

datatype BaseMessage = HumanMessage pystr | AIMessage pystr

text \<open>
  \<^verbatim>\<open>
  def _mock_conversations_reducer(old, new):
      if new is not None:
          return new
      return old or []
  \<close>
\<close>

definition mock_conversations_reducer ::
  "BaseMessage list option \<Rightarrow> BaseMessage list option \<Rightarrow> BaseMessage list" where
  "mock_conversations_reducer old new =
     (case new of
        Some n \<Rightarrow> n
      | None \<Rightarrow> (case old of None \<Rightarrow> [] | Some l \<Rightarrow> if l = [] then [] else l))"

text \<open>
  \<open>AgentConfigState\<close>: the two slots the middleware adds to the agent state, each
  annotated with its reducer. A slot that was never written is \<open>None\<close>.
\<close>

record AgentConfigState =
  agent_config :: "config_value option"
  mock_conversations :: "BaseMessage list option"

text \<open>
  A tool returns either a \<open>Command\<close> or a string. The command's \<open>update\<close> dictionary has
  the key \<open>messages\<close> (one \<open>ToolMessage\<close>, of which the content is kept) and at most one
  of the keys \<open>agent_config\<close> and \<open>mock_conversations\<close>; \<open>None\<close> below says that the key
  is absent. Applying a command passes each slot named by a key through the slot's
  reducer, together with the stored value, and leaves the other slots alone; a string
  result updates no slot.
\<close>

record Command =
  upd_agent_config :: "config_value option"
  upd_mock_conversations :: "BaseMessage list option"
  upd_message :: pystr

datatype tool_result = Cmd Command | Text pystr

definition apply_command :: "AgentConfigState \<Rightarrow> Command \<Rightarrow> AgentConfigState" where
  "apply_command st c =
     \<lparr>agent_config =
        (case upd_agent_config c of
           None \<Rightarrow> agent_config st
         | Some v \<Rightarrow> agent_config_reducer (agent_config st) (Some v)),
      mock_conversations =
        (case upd_mock_conversations c of
           None \<Rightarrow> mock_conversations st
         | Some m \<Rightarrow> Some (mock_conversations_reducer (mock_conversations st) (Some m)))\<rparr>"

definition apply_result :: "AgentConfigState \<Rightarrow> tool_result \<Rightarrow> AgentConfigState" where
  "apply_result st r = (case r of Cmd c \<Rightarrow> apply_command st c | Text _ \<Rightarrow> st)"

section \<open>The configuration tools\<close>

text \<open>
  \<^verbatim>\<open>
  def write_agent_config(config, runtime):
      try:
          validated_config = AgentConfig(**config)
          return Command(update={"agent_config": validated_config,
              "messages": [ToolMessage(content=
                  f"Agent configuration written successfully: {validated_config.name}", ...)]},
              goto="agent")
      except ValidationError as e:
          error_messages = []
          for error in e.errors():
              field = " -> ".join(str(x) for x in error["loc"])
              error_messages.append(f"  - {field}: {error['msg']}")
          return "Configuration validation failed:\n" + "\n".join(error_messages)
  \<close>
  The text of \<open>error['msg']\<close> comes from the validation library; it is the parameter
  \<open>msg\<close>.
\<close>

definition loc_str :: "loc_item \<Rightarrow> pystr" where
  "loc_str x = (case x of Key k \<Rightarrow> k | Idx i \<Rightarrow> str_nat i)"

definition error_message :: "(verror \<Rightarrow> pystr) \<Rightarrow> verror \<Rightarrow> pystr" where
  "error_message msg e =
     str_of ''  - '' @ join (str_of '' -> '') (map loc_str (fst e)) @ str_of '': '' @ msg e"

definition write_agent_config :: "(verror \<Rightarrow> pystr) \<Rightarrow> pydict \<Rightarrow> tool_result" where
  "write_agent_config msg cfg =
     (case validate_AgentConfig cfg of
        Inr validated_config \<Rightarrow>
          Cmd \<lparr>upd_agent_config = Some (Validated validated_config),
               upd_mock_conversations = None,
               upd_message = str_of ''Agent configuration written successfully: ''
                               @ agent_name validated_config\<rparr>
      | Inl errors \<Rightarrow>
          Text (str_of ''Configuration validation failed:'' @ [10]
                  @ join [10] (map (error_message msg) errors)))"

text \<open>
  \<^verbatim>\<open>
  def update_agent_config(updates, runtime):
      if not isinstance(updates, dict):
          return "Error: updates must be a dictionary"
      updated_fields = ", ".join(updates.keys())
      return Command(update={"agent_config": updates,
          "messages": [ToolMessage(content=f"Agent configuration updated: {updated_fields}", ...)]},
          goto="agent")
  \<close>
\<close>

definition update_agent_config :: "pyval \<Rightarrow> tool_result" where
  "update_agent_config updates =
     (case updates of
        PDict d \<Rightarrow>
          Cmd \<lparr>upd_agent_config = Some (Partial d),
               upd_mock_conversations = None,
               upd_message = str_of ''Agent configuration updated: ''
                               @ join (str_of '', '') (map fst d)\<rparr>
      | _ \<Rightarrow> Text (str_of ''Error: updates must be a dictionary''))"

section \<open>The mock-conversation parser\<close>

text \<open>
  \<open>str.isspace()\<close> on one character, which is also the class \<open>\s\<close> of the regular
  expression; \<open>str.strip()\<close>; \<open>str.split('\n')\<close>.
\<close>

definition isspace :: "int \<Rightarrow> bool" where
  "isspace c \<longleftrightarrow>
     (9 \<le> c \<and> c \<le> 13) \<or> (28 \<le> c \<and> c \<le> 32) \<or> c = 133 \<or> c = 160 \<or> c = 5760 \<or>
     (8192 \<le> c \<and> c \<le> 8202) \<or> c = 8232 \<or> c = 8233 \<or> c = 8239 \<or> c = 8287 \<or> c = 12288"

definition py_strip :: "pystr \<Rightarrow> pystr" where
  "py_strip s = rev (dropWhile isspace (rev (dropWhile isspace s)))"

fun split_nl :: "pystr \<Rightarrow> pystr list" where
  "split_nl [] = [[]]"
| "split_nl (c # cs) =
     (if c = 10 then [] # split_nl cs
      else (case split_nl cs of [] \<Rightarrow> [[c]] | l # ls \<Rightarrow> (c # l) # ls))"

text \<open>
  \<open>role_pattern = re.compile(r'\*\*(.*?):\*\*\s*(.*)')\<close>, matched at the start of a line
  that holds no newline: the line begins with two asterisks; the first group is
  the shortest text up to a colon followed by two asterisks; the second group is what
  follows, after any white space.
\<close>

fun find_marker :: "pystr \<Rightarrow> (pystr \<times> pystr) option" where
  "find_marker [] = None"
| "find_marker (c # cs) =
     (if take 3 (c # cs) = [58, 42, 42] then Some ([], drop 3 (c # cs))
      else (case find_marker cs of
              None \<Rightarrow> None
            | Some (g, r) \<Rightarrow> Some (c # g, r)))"

definition role_pattern_match :: "pystr \<Rightarrow> (pystr \<times> pystr) option" where
  "role_pattern_match line =
     (case line of
        a # b # rest \<Rightarrow>
          if a = 42 \<and> b = 42
          then (case find_marker rest of
                  None \<Rightarrow> None
                | Some (g1, r) \<Rightarrow> Some (g1, dropWhile isspace r))
          else None
      | _ \<Rightarrow> None)"

text \<open>
  \<^verbatim>\<open>
  def parse_mock_conversations(conversation):
      messages = []
      lines = conversation.split('\n')
      current_role = None
      current_content = []
      for line in lines:
          line = line.strip()
          if not line:
              if current_role and current_content:
                  content = "\n".join(current_content)
                  if current_role.lower() in ['user', <U+7528 U+6237>]:
                      messages.append(HumanMessage(content=content))
                  else:
                      messages.append(AIMessage(content=content))
                  current_content = []
              continue
          match = role_pattern.match(line)
          if match:
              if current_role and current_content:
                  ... (the same append)
              current_role = match.group(1).strip()
              current_content = [match.group(2).strip()]
          else:
              if current_role:
                  current_content.append(line)
      if current_role and current_content:
          ... (the same append)
      return messages
  \<close>
\<close>

record parse_state =
  messages :: "BaseMessage list"
  current_role :: "pystr option"
  current_content :: "pystr list"

definition make_message :: "pystr \<Rightarrow> pystr list \<Rightarrow> BaseMessage" where
  "make_message role content_lines =
     (let content = join [10] content_lines
      in if py_lower role = str_of ''user'' \<or> py_lower role = [29992, 25143]
         then HumanMessage content else AIMessage content)"

text \<open>\<open>if current_role and current_content: messages.append(...)\<close>.\<close>

definition append_pending :: "parse_state \<Rightarrow> BaseMessage list" where
  "append_pending st =
     (case current_role st of
        None \<Rightarrow> messages st
      | Some role \<Rightarrow>
          if role \<noteq> [] \<and> current_content st \<noteq> []
          then messages st @ [make_message role (current_content st)]
          else messages st)"

definition parse_line :: "parse_state \<Rightarrow> pystr \<Rightarrow> parse_state" where
  "parse_line st raw =
     (let line = py_strip raw
      in if line = [] then
           (case current_role st of
              None \<Rightarrow> st
            | Some role \<Rightarrow>
                if role \<noteq> [] \<and> current_content st \<noteq> []
                then st\<lparr>messages := append_pending st, current_content := []\<rparr>
                else st)
         else
           (case role_pattern_match line of
              Some (g1, g2) \<Rightarrow>
                \<lparr>messages = append_pending st,
                 current_role = Some (py_strip g1),
                 current_content = [py_strip g2]\<rparr>
            | None \<Rightarrow>
                (case current_role st of
                   None \<Rightarrow> st
                 | Some role \<Rightarrow>
                     if role \<noteq> [] then st\<lparr>current_content := current_content st @ [line]\<rparr>
                     else st)))"

definition parse_mock_conversations :: "pystr \<Rightarrow> BaseMessage list" where
  "parse_mock_conversations conversation =
     append_pending
       (foldl parse_line \<lparr>messages = [], current_role = None, current_content = []\<rparr>
          (split_nl conversation))"

text \<open>
  \<^verbatim>\<open>
  def update_mock_conversation(conversation, runtime):
      if not isinstance(conversation, str):
          return "Error: conversation must be a string"
      messages = parse_mock_conversations(conversation)
      return Command(update={"mock_conversations": messages,
          "messages": [ToolMessage(content=
              f"Mock conversations updated ({len(messages)} messages parsed)", ...)]},
          goto="agent")
  \<close>
\<close>

definition update_mock_conversation :: "pyval \<Rightarrow> tool_result" where
  "update_mock_conversation conversation =
     (case conversation of
        PStr s \<Rightarrow>
          (let msgs = parse_mock_conversations s
           in Cmd \<lparr>upd_agent_config = None,
                   upd_mock_conversations = Some msgs,
                   upd_message = str_of ''Mock conversations updated (''
                                   @ str_nat (length msgs) @ str_of '' messages parsed)''\<rparr>)
      | _ \<Rightarrow> Text (str_of ''Error: conversation must be a string''))"

section \<open>Change detection in the application (app.py)\<close>

text \<open>
  Python's \<open>==\<close> on the values above: \<open>None\<close> equals only \<open>None\<close>; a boolean is the
  integer 0 or 1; strings are equal as sequences of code points; lists are equal when they
  have the same length and equal items in order; dictionaries are equal when they have
  the same number of items and every key of the first is a key of the second with an equal
  value.
\<close>

fun py_eq :: "pyval \<Rightarrow> pyval \<Rightarrow> bool"
  and py_eq_list :: "pyval list \<Rightarrow> pyval list \<Rightarrow> bool"
  and py_items_in :: "pydict \<Rightarrow> pydict \<Rightarrow> bool" where
  "py_eq PNone b = (case b of PNone \<Rightarrow> True | _ \<Rightarrow> False)"
| "py_eq (PBool x) b =
     (case b of PBool y \<Rightarrow> x = y | PInt j \<Rightarrow> (if x then 1 else 0) = j | _ \<Rightarrow> False)"
| "py_eq (PInt i) b =
     (case b of PInt j \<Rightarrow> i = j | PBool y \<Rightarrow> i = (if y then 1 else 0) | _ \<Rightarrow> False)"
| "py_eq (PStr s) b = (case b of PStr t \<Rightarrow> s = t | _ \<Rightarrow> False)"
| "py_eq (PList xs) b = (case b of PList ys \<Rightarrow> py_eq_list xs ys | _ \<Rightarrow> False)"
| "py_eq (PDict d) b =
     (case b of PDict e \<Rightarrow> length d = length e \<and> py_items_in d e | _ \<Rightarrow> False)"
| "py_eq_list [] ys = (ys = [])"
| "py_eq_list (x # xs) ys =
     (case ys of [] \<Rightarrow> False | y # ys' \<Rightarrow> py_eq x y \<and> py_eq_list xs ys')"
| "py_items_in [] e = True"
| "py_items_in ((k, v) # d) e =
     ((case map_of e k of None \<Rightarrow> False | Some w \<Rightarrow> py_eq v w) \<and> py_items_in d e)"



definition config_dict :: "config_value \<Rightarrow> pyval" where
  "config_dict v = (case v of Validated c \<Rightarrow> PDict (model_dump c) | Partial d \<Rightarrow> PDict d)"

definition config_changed :: "config_value option \<Rightarrow> config_value \<Rightarrow> bool" where
  "config_changed old new_config =
     (case old of
        None \<Rightarrow> True
      | Some old_config \<Rightarrow> \<not> py_eq (config_dict old_config) (config_dict new_config))"







section \<open>The parser as the specification words it\<close>

text \<open>
  The specification's algorithm, for comparison with the loop above: a marker line
  closes the open turn and opens a new one; a line that is neither blank nor a marker is
  added to the open turn, if there is one; a blank line closes the open turn, after which
  no turn is open; the end of the input closes the open turn. Markers, stripping and the
  mapping of labels to speakers are those of the code.
\<close>

record spec_state =
  turns :: "BaseMessage list"
  open_turn :: "(pystr \<times> pystr list) option"

definition close_turn :: "spec_state \<Rightarrow> BaseMessage list" where
  "close_turn st =
     (case open_turn st of
        None \<Rightarrow> turns st
      | Some (label, content_lines) \<Rightarrow> turns st @ [make_message label content_lines])"

definition spec_line :: "spec_state \<Rightarrow> pystr \<Rightarrow> spec_state" where
  "spec_line st raw =
     (let line = py_strip raw
      in if line = [] then \<lparr>turns = close_turn st, open_turn = None\<rparr>
         else
           (case role_pattern_match line of
              Some (g1, g2) \<Rightarrow>
                \<lparr>turns = close_turn st, open_turn = Some (py_strip g1, [py_strip g2])\<rparr>
            | None \<Rightarrow>
                (case open_turn st of
                   None \<Rightarrow> st
                 | Some (label, content_lines) \<Rightarrow>
                     st\<lparr>open_turn := Some (label, content_lines @ [line])\<rparr>)))"

definition parse_spec :: "pystr \<Rightarrow> BaseMessage list" where
  "parse_spec conversation =
     close_turn (foldl spec_line \<lparr>turns = [], open_turn = None\<rparr> (split_nl conversation))"

text \<open>
  The algorithm the code follows, as a recursion over the stripped lines that carries
  the label in force (empty: none) and the lines collected for it. A blank line and a
  marker line emit the collected lines as one turn, if there are any and the label is not
  empty; the blank line keeps the label, the marker line replaces it (an empty label
  collects nothing); the end of the input emits in the same way.
\<close>

definition emit :: "pystr \<Rightarrow> pystr list \<Rightarrow> BaseMessage list" where
  "emit label content_lines =
     (if label \<noteq> [] \<and> content_lines \<noteq> [] then [make_message label content_lines] else [])"

fun amended_turns :: "pystr \<Rightarrow> pystr list \<Rightarrow> pystr list \<Rightarrow> BaseMessage list" where
  "amended_turns label content_lines [] = emit label content_lines"
| "amended_turns label content_lines (line # rest) =
     (if line = [] then emit label content_lines @ amended_turns label [] rest
      else
        (case role_pattern_match line of
           Some (g1, g2) \<Rightarrow>
             emit label content_lines @ amended_turns (py_strip g1) [py_strip g2] rest
         | None \<Rightarrow>
             amended_turns label (if label = [] then [] else content_lines @ [line]) rest))"

definition parse_amended :: "pystr \<Rightarrow> BaseMessage list" where
  "parse_amended conversation = amended_turns [] [] (map py_strip (split_nl conversation))"

text \<open>The label in force and the lines collected for it, read off the loop's variables.\<close>

definition label_of :: "parse_state \<Rightarrow> pystr" where
  "label_of st = (case current_role st of None \<Rightarrow> [] | Some r \<Rightarrow> r)"

definition pending_lines :: "parse_state \<Rightarrow> pystr list" where
  "pending_lines st = (if label_of st = [] then [] else current_content st)"

section \<open>What the schema promises\<close>








section \<open>Example configurations\<close>

text \<open>
  The example of the docstring of \<open>write_agent_config\<close>, and the configuration of the
  specification's end-to-end scenario.
\<close>

definition hotel_booking_config :: pydict where
  "hotel_booking_config =
     [(str_of ''name'', PStr (str_of ''Hotel Booking Agent'')),
      (str_of ''description'', PStr (str_of ''Helps users book hotel rooms'')),
      (str_of ''system_prompt'',
         PStr (str_of ''You are a professional hotel booking assistant...'')),
      (str_of ''skills'',
         PList [PDict
           [(str_of ''name'', PStr (str_of ''Hotel Booking Agent'')),
            (str_of ''when_to_use'', PStr (str_of ''When user wants to book a hotel room'')),
            (str_of ''prompt'', PStr (str_of ''Book a hotel room...'')),
            (str_of ''tools'',
               PList [PDict [(str_of ''name'', PStr (str_of ''book_room'')),
                             (str_of ''config'', PDict [])]])]])]"

definition hotel_booking_agent :: AgentConfig where
  "hotel_booking_agent =
     \<lparr>agent_name = str_of ''Hotel Booking Agent'',
      description = str_of ''Helps users book hotel rooms'',
      system_prompt = str_of ''You are a professional hotel booking assistant...'',
      skills =
        [\<lparr>skill_name = str_of ''Hotel Booking Agent'',
          when_to_use = str_of ''When user wants to book a hotel room'',
          prompt = str_of ''Book a hotel room...'',
          tools = [\<lparr>tool_name = str_of ''book_room'', config = []\<rparr>]\<rparr>]\<rparr>"

definition hotel_agent_skills :: pyval where
  "hotel_agent_skills =
     PList [PDict
       [(str_of ''name'', PStr (str_of ''Booking'')),
        (str_of ''when_to_use'',
           PStr (str_of ''When user wants to book a room for more than ten characters'')),
        (str_of ''prompt'', PStr (str_of ''Help the user book a room.'')),
        (str_of ''tools'', PList [])]]"

definition hotel_agent_config :: pydict where
  "hotel_agent_config =
     [(str_of ''name'', PStr (str_of ''Hotel Agent'')),
      (str_of ''description'', PStr (str_of ''Books hotel rooms'')),
      (str_of ''system_prompt'', PStr (str_of ''You are a booking assistant.'')),
      (str_of ''skills'', hotel_agent_skills)]"

definition hotel_agent :: AgentConfig where
  "hotel_agent =
     \<lparr>agent_name = str_of ''Hotel Agent'',
      description = str_of ''Books hotel rooms'',
      system_prompt = str_of ''You are a booking assistant.'',
      skills =
        [\<lparr>skill_name = str_of ''Booking'',
          when_to_use = str_of ''When user wants to book a room for more than ten characters'',
          prompt = str_of ''Help the user book a room.'',
          tools = []\<rparr>]\<rparr>"

text \<open>
  A candidate with five violations: the name is empty, the description is missing, the
  system prompt is a number, and the skill's when-to-use is too short and its prompt
  missing.
\<close>

definition incomplete_skill :: pydict where
  "incomplete_skill =
     [(str_of ''name'', PStr (str_of ''Booking'')),
      (str_of ''when_to_use'', PStr (str_of ''short''))]"

definition incomplete_config :: pydict where
  "incomplete_config =
     [(str_of ''name'', PStr []),
      (str_of ''system_prompt'', PInt 7),
      (str_of ''skills'',
         PList [PDict incomplete_skill])]"

section \<open>Properties of the sanitizer\<close>

lemma str_of_skill: "str_of ''skill_'' = [115, 107, 105, 108, 108, 95]"
  by (simp add: str_of_def)

lemma lower_cp_ident: "ident_char c \<Longrightarrow> lower_cp c = [c]"
  by (auto simp: ident_char_def lower_cp_def)

lemma py_lower_ident: "list_all ident_char s \<Longrightarrow> py_lower s = s"
  by (induction s) (simp_all add: py_lower_def lower_cp_ident)

lemma replace_space_ident: "list_all ident_char s \<Longrightarrow> replace_space s = s"
  by (induction s) (auto simp: replace_space_def ident_char_def)

lemma filter_ident: "list_all ident_char s \<Longrightarrow> filter ident_char s = s"
  by (induction s) simp_all

lemma skill_prefix_ident: "list_all ident_char (str_of ''skill_'')"
  by (simp add: str_of_skill ident_char_def)

lemma sanitize_cases:
  "sanitize_tool_name x =
     (let s2 = filter ident_char (replace_space (py_lower x))
      in if (case s2 of [] \<Rightarrow> True | c # _ \<Rightarrow> isdigit c) then str_of ''skill_'' @ s2 else s2)"
  by (auto simp: sanitize_tool_name_def Let_def str_of_skill split: list.splits)

lemma sanitize_all_ident: "list_all ident_char (sanitize_tool_name x)"
  using skill_prefix_ident
  by (auto simp: sanitize_cases Let_def list_all_iff)

lemma sanitize_nonempty: "sanitize_tool_name x \<noteq> []"
  by (auto simp: sanitize_cases Let_def str_of_skill split: list.splits)

lemma sanitize_head_not_digit:
  "(case sanitize_tool_name x of [] \<Rightarrow> True | c # _ \<Rightarrow> isdigit c) = False"
  by (auto simp: sanitize_cases Let_def str_of_skill isdigit_def split: list.splits)

lemma sanitize_fixed:
  assumes "list_all ident_char s" and "(case s of [] \<Rightarrow> True | c # _ \<Rightarrow> isdigit c) = False"
  shows "sanitize_tool_name s = s"
  using assms
  by (simp add: sanitize_cases Let_def py_lower_ident replace_space_ident filter_ident)

text \<open>
  C7. For every input the sanitizer's output matches \<open>^[a-z0-9_-]+$\<close> (it is not empty and
  holds only lower-case letters, digits, underscore and hyphen), and sanitizing twice is
  the same as sanitizing once.
\<close>

theorem sanitize_pattern_idempotent:
  "matches_ident (sanitize_tool_name x) \<and>
   sanitize_tool_name (sanitize_tool_name x) = sanitize_tool_name x"
  by (simp add: matches_ident_def sanitize_nonempty sanitize_all_ident
      sanitize_fixed [OF sanitize_all_ident sanitize_head_not_digit])

text \<open>
  C5, as the code has it. \<open>sanitize("Book a Room!")\<close> is \<open>book_a_room\<close> and
  \<open>sanitize("123abc")\<close> is \<open>skill_123abc\<close>. An input of which nothing is left after
  lower-casing, replacing spaces and deleting every character outside \<open>[a-z0-9_-]\<close> (such
  as the two code points U+4F60 U+597D) gives \<open>skill_\<close>: the prefix is added to the empty
  string first, so the later test for an empty result never fires and \<open>skill_tool\<close> is
  returned for no such input.
\<close>

theorem sanitize_examples_empty_gives_prefix:
  "sanitize_tool_name (str_of ''Book a Room!'') = str_of ''book_a_room'' \<and>
   sanitize_tool_name (str_of ''123abc'') = str_of ''skill_123abc'' \<and>
   sanitize_tool_name [20320, 22909] = str_of ''skill_'' \<and>
   (filter ident_char (replace_space (py_lower x)) = [] \<longrightarrow>
      sanitize_tool_name x = str_of ''skill_'')"
proof -
  have "sanitize_tool_name (str_of ''Book a Room!'') = str_of ''book_a_room''"
    by code_simp
  moreover have "sanitize_tool_name (str_of ''123abc'') = str_of ''skill_123abc''"
    by code_simp
  moreover have "sanitize_tool_name [20320, 22909] = str_of ''skill_''"
    by code_simp
  moreover have "filter ident_char (replace_space (py_lower x)) = [] \<longrightarrow>
      sanitize_tool_name x = str_of ''skill_''"
    by (simp add: sanitize_cases)
  ultimately show ?thesis by blast
qed

theorem sanitize_examples_empty_gives_prefix_witness:
  "filter ident_char (replace_space (py_lower [20320, 22909])) = [] \<and>
   sanitize_tool_name [20320, 22909] = str_of ''skill_''"
proof -
  have h: "filter ident_char (replace_space (py_lower [20320, 22909])) = []"
    by code_simp
  from sanitize_examples_empty_gives_prefix [of "[20320, 22909]"] h show ?thesis
    by blast
qed

text \<open>
  C5, as the claim states it, fails: for the input U+4F60 U+597D, which holds only
  characters outside \<open>[a-z0-9_-]\<close>, the result is not the literal \<open>skill_tool\<close>.
\<close>

theorem sanitize_fallback_counterexample:
  "sanitize_tool_name [20320, 22909] \<noteq> str_of ''skill_tool''"
  by code_simp

section \<open>Properties of the reducers and the configuration tools\<close>



text \<open>
  C9. Whatever is stored (nothing, a partial dictionary or a validated configuration),
  the configuration reducer given the new value \<open>None\<close> returns the stored value as it is.
\<close>

theorem reducer_none_keeps_old: "agent_config_reducer old None = old"
  by (simp add: agent_config_reducer_def)




text \<open>
  Both outcomes of \<open>write\<close> occur: the scenario's configuration replaces a stored partial
  dictionary, of which nothing is kept; the candidate with five violations is rejected
  with five errors and the state stays.
\<close>

lemma write_replaces_example:
  "agent_config
     (apply_result
        \<lparr>agent_config = Some (Partial [(str_of ''note'', PInt 1)]), mock_conversations = None\<rparr>
        (write_agent_config (\<lambda>e. []) hotel_agent_config)) =
   Some (Validated hotel_agent)"
  by code_simp

lemma write_rejects_example:
  "apply_result
     \<lparr>agent_config = Some (Validated hotel_agent), mock_conversations = None\<rparr>
     (write_agent_config (\<lambda>e. []) incomplete_config) =
   \<lparr>agent_config = Some (Validated hotel_agent), mock_conversations = None\<rparr> \<and>
   length (errors_of (validate_AgentConfig incomplete_config)) = 5"
  by code_simp



text \<open>
  The specification's examples of \<open>update\<close>: two partial updates keep both keys, and the
  end-to-end scenario ends in the validated configuration.
\<close>

lemma update_twice_example:
  "agent_config
     (apply_result
        (apply_result \<lparr>agent_config = None, mock_conversations = None\<rparr>
           (update_agent_config (PDict [(str_of ''name'', PStr (str_of ''A''))])))
        (update_agent_config (PDict [(str_of ''description'', PStr (str_of ''D''))]))) =
   Some (Partial [(str_of ''name'', PStr (str_of ''A'')),
                  (str_of ''description'', PStr (str_of ''D''))])"
  by code_simp

lemma update_scenario_example:
  "agent_config
     (apply_result
        (apply_result \<lparr>agent_config = None, mock_conversations = None\<rparr>
           (update_agent_config (PDict [(str_of ''name'', PStr (str_of ''Hotel Agent''))])))
        (update_agent_config (PDict
           [(str_of ''description'', PStr (str_of ''Books hotel rooms'')),
            (str_of ''system_prompt'', PStr (str_of ''You are a booking assistant.'')),
            (str_of ''skills'', hotel_agent_skills)]))) =
   Some (Validated hotel_agent)"
  by code_simp

lemma hotel_agent_config_valid: "validate_AgentConfig hotel_agent_config = Inr hotel_agent"
  by code_simp

lemma hotel_booking_config_valid:
  "validate_AgentConfig hotel_booking_config = Inr hotel_booking_agent"
  by code_simp

text \<open>
  C6, as the code has it. Every \<open>update_mock_conversation\<close> replaces the stored mock
  conversation by the newly parsed one, whatever was stored; writing or updating the
  configuration leaves the stored mock conversation as it is.
\<close>

theorem mock_replaced_config_independent:
  "mock_conversations_reducer old (Some new) = new \<and>
   mock_conversations (apply_result st (update_mock_conversation (PStr s))) =
     Some (parse_mock_conversations s) \<and>
   mock_conversations (apply_result st (write_agent_config msg cand)) = mock_conversations st \<and>
   mock_conversations (apply_result st (update_agent_config u)) = mock_conversations st"
  by (cases u)
     (simp_all add: mock_conversations_reducer_def update_mock_conversation_def
      write_agent_config_def update_agent_config_def apply_result_def apply_command_def Let_def
      split: sum.splits)

text \<open>
  C6, as the claim states it, fails: a state holds a validated configuration and a mock
  conversation of one turn; writing another valid configuration replaces the stored one
  by a materially different one (the change detection says so), and the mock conversation
  is still there.
\<close>

theorem mock_not_cleared_counterexample:
  "validate_AgentConfig hotel_booking_config = Inr hotel_booking_agent \<and>
   agent_config
     (apply_result
        \<lparr>agent_config = Some (Validated hotel_agent),
         mock_conversations = Some [HumanMessage (str_of ''Hi'')]\<rparr>
        (write_agent_config (\<lambda>e. []) hotel_booking_config)) =
     Some (Validated hotel_booking_agent) \<and>
   config_changed (Some (Validated hotel_agent)) (Validated hotel_booking_agent) \<and>
   mock_conversations
     (apply_result
        \<lparr>agent_config = Some (Validated hotel_agent),
         mock_conversations = Some [HumanMessage (str_of ''Hi'')]\<rparr>
        (write_agent_config (\<lambda>e. []) hotel_booking_config)) =
     Some [HumanMessage (str_of ''Hi'')] \<and>
   Some [HumanMessage (str_of ''Hi'')] \<noteq> Some []"
  by code_simp

section \<open>Properties of the mock-conversation parser\<close>

lemma append_pending_emit:
  "append_pending st = messages st @ emit (label_of st) (pending_lines st)"
  by (cases "current_role st")
     (simp_all add: append_pending_def emit_def label_of_def pending_lines_def)

lemma parse_line_blank:
  assumes "py_strip l = []"
  shows "messages (parse_line st l) = messages st @ emit (label_of st) (pending_lines st)"
    and "label_of (parse_line st l) = label_of st"
    and "pending_lines (parse_line st l) = []"
  using assms
  by (cases "current_role st";
      simp add: parse_line_def append_pending_def emit_def label_of_def pending_lines_def)+

lemma parse_line_marker:
  assumes "py_strip l \<noteq> []" and "role_pattern_match (py_strip l) = Some (g1, g2)"
  shows "messages (parse_line st l) = messages st @ emit (label_of st) (pending_lines st)"
    and "label_of (parse_line st l) = py_strip g1"
    and "pending_lines (parse_line st l) = (if py_strip g1 = [] then [] else [py_strip g2])"
  using assms
  by (simp_all add: parse_line_def append_pending_emit label_of_def pending_lines_def)

lemma parse_line_other:
  assumes "py_strip l \<noteq> []" and "role_pattern_match (py_strip l) = None"
  shows "messages (parse_line st l) = messages st"
    and "label_of (parse_line st l) = label_of st"
    and "pending_lines (parse_line st l) =
           (if label_of st = [] then [] else pending_lines st @ [py_strip l])"
  using assms
  by (cases "current_role st";
      simp add: parse_line_def label_of_def pending_lines_def)+

lemma amended_no_label: "amended_turns [] c ls = amended_turns [] [] ls"
proof (induction ls arbitrary: c)
  case Nil
  show ?case by (simp add: emit_def)
next
  case (Cons l ls)
  show ?case
    by (cases "role_pattern_match l") (simp_all add: emit_def split: prod.splits)
qed

lemma amended_marker_canon:
  "amended_turns g [c] rest = amended_turns g (if g = [] then [] else [c]) rest"
  using amended_no_label [of "[c]" rest] by simp

lemma parse_loop_amended:
  "append_pending (foldl parse_line st ls) =
   messages st @ amended_turns (label_of st) (pending_lines st) (map py_strip ls)"
proof (induction ls arbitrary: st)
  case Nil
  show ?case by (simp add: append_pending_emit)
next
  case (Cons l ls)
  show ?case
  proof (cases "py_strip l = []")
    case True
    then show ?thesis
      by (simp add: Cons.IH parse_line_blank)
  next
    case False
    show ?thesis
    proof (cases "role_pattern_match (py_strip l)")
      case None
      with False show ?thesis
        by (simp add: Cons.IH parse_line_other)
    next
      case (Some g)
      obtain g1 g2 where g: "g = (g1, g2)" by (cases g)
      with False Some show ?thesis
        using amended_marker_canon [of "py_strip g1" "py_strip g2" "map py_strip ls"]
        by (simp add: Cons.IH parse_line_marker)
    qed
  qed
qed

lemma parse_is_amended: "parse_mock_conversations s = parse_amended s"
  by (simp add: parse_mock_conversations_def parse_amended_def parse_loop_amended
      label_of_def pending_lines_def)

lemma amended_no_markers:
  "list_all (\<lambda>l. role_pattern_match (py_strip l) = None) ls \<Longrightarrow>
   amended_turns [] [] (map py_strip ls) = []"
  by (induction ls) (simp_all add: emit_def)

text \<open>On the claim's own example the specification's algorithm gives the two turns.\<close>

lemma parse_spec_example:
  "parse_spec (str_of ''**User:** Hi'' @ [10] @ str_of ''**Agent:** Hello'' @ [10]) =
     [HumanMessage (str_of ''Hi''), AIMessage (str_of ''Hello'')]"
  by code_simp

text \<open>
  C4, as the code has it. For every input the parser computes the amended algorithm:
  a marker line with a non-empty label starts a turn; later lines that are neither blank
  nor markers are added to it, joined by newline; a blank line emits the turn's lines but
  keeps the label in force, so that lines after it, up to the next marker, form a further
  turn of the same speaker; a marker with an empty label emits the open turn and
  collects nothing; labels are mapped to speakers and turns emitted in order as claimed,
  and the end of the input emits the open turn. The example of the claim gives its two
  turns, a turn that no blank line ends is emitted, and an input that is empty or holds
  no marker line gives no turn.
\<close>

theorem parser_follows_amended_algorithm:
  "parse_mock_conversations s = parse_amended s \<and>
   parse_mock_conversations
     (str_of ''**User:** Hi'' @ [10] @ str_of ''**Agent:** Hello'' @ [10]) =
     [HumanMessage (str_of ''Hi''), AIMessage (str_of ''Hello'')] \<and>
   parse_mock_conversations (str_of ''**Agent:** Hello'') = [AIMessage (str_of ''Hello'')] \<and>
   parse_mock_conversations [] = [] \<and>
   (list_all (\<lambda>l. role_pattern_match (py_strip l) = None) (split_nl s) \<longrightarrow>
      parse_mock_conversations s = [])"
proof -
  have "parse_mock_conversations
     (str_of ''**User:** Hi'' @ [10] @ str_of ''**Agent:** Hello'' @ [10]) =
     [HumanMessage (str_of ''Hi''), AIMessage (str_of ''Hello'')]"
    by code_simp
  moreover have "parse_mock_conversations (str_of ''**Agent:** Hello'') =
      [AIMessage (str_of ''Hello'')]"
    by code_simp
  moreover have "parse_mock_conversations [] = []"
    by code_simp
  moreover have "list_all (\<lambda>l. role_pattern_match (py_strip l) = None) (split_nl s) \<longrightarrow>
      parse_mock_conversations s = []"
    by (simp add: parse_is_amended parse_amended_def amended_no_markers)
  ultimately show ?thesis
    using parse_is_amended by blast
qed

theorem parser_follows_amended_algorithm_witness:
  "list_all (\<lambda>l. role_pattern_match (py_strip l) = None)
     (split_nl (str_of ''# Title'' @ [10] @ str_of ''no markers here'')) \<and>
   parse_mock_conversations (str_of ''# Title'' @ [10] @ str_of ''no markers here'') = []"
proof -
  have h: "list_all (\<lambda>l. role_pattern_match (py_strip l) = None)
     (split_nl (str_of ''# Title'' @ [10] @ str_of ''no markers here''))"
    by code_simp
  from parser_follows_amended_algorithm [of "str_of ''# Title'' @ [10] @ str_of ''no markers here''"] h
  show ?thesis by blast
qed

text \<open>
  C4, as the claim states it, fails: in the input \<open>**User:** Hi\<close>, blank line, \<open>more\<close>
  the blank line closes the only turn a marker starts, yet the code emits a second turn
  for the line after it.
\<close>

theorem parser_blank_line_counterexample:
  "parse_mock_conversations (str_of ''**User:** Hi'' @ [10, 10] @ str_of ''more'') =
     [HumanMessage (str_of ''Hi''), HumanMessage (str_of ''more'')] \<and>
   parse_spec (str_of ''**User:** Hi'' @ [10, 10] @ str_of ''more'') =
     [HumanMessage (str_of ''Hi'')] \<and>
   parse_mock_conversations (str_of ''**User:** Hi'' @ [10, 10] @ str_of ''more'') \<noteq>
     parse_spec (str_of ''**User:** Hi'' @ [10, 10] @ str_of ''more'')"
  by code_simp

section \<open>Properties of the schema validation\<close>





































section \<open>Properties of the change detection\<close>


lemma py_eq_list_iff: "py_eq_list xs ys \<longleftrightarrow> list_all2 py_eq xs ys"
  by (induction xs arbitrary: ys) (auto split: list.splits simp: list_all2_Cons1)






end
